theory Spec2Isabelle
  imports Main "HOL-Library.AList"
begin

section \<open>Errors\<close>

text \<open>
  The exceptions the two modules raise or let through, as values. Every constructor
  carries the text that Python's \<open>str(e)\<close> gives. \<open>GitlabGetError\<close> is the
  hosting client's not-found-class failure and \<open>GitlabAuthenticationError\<close> its
  credential rejection; \<open>PyException\<close> is the plain \<open>Exception\<close> that
  \<open>get_merge_requests\<close> raises; \<open>OtherError\<close> stands for any other exception
  a client library may raise.
\<close>

datatype error =
    GitlabGetError string
  | GitlabAuthenticationError string
  | ValueError string
  | AttributeError string
  | TypeError string
  | PyException string
  | OtherError string

fun str_of :: "error \<Rightarrow> string" where
  "str_of (GitlabGetError m) = m"
| "str_of (GitlabAuthenticationError m) = m"
| "str_of (ValueError m) = m"
| "str_of (AttributeError m) = m"
| "str_of (TypeError m) = m"
| "str_of (PyException m) = m"
| "str_of (OtherError m) = m"

section \<open>The hosting platform, as the client library shows it\<close>

text \<open>
  The client library is not part of the repository: its objects are parameters of the
  model. A merge-request handle has the attributes the code reads; \<open>changes\<close> is
  the result of the remote call \<open>mr.changes()['changes']\<close>, which may raise. A
  change is the part of the payload the code reads (\<open>new_path\<close>, \<open>diff\<close>).
\<close>

record change =
  new_path :: string
  diff :: string

record author =
  name :: string
  username :: string

record merge_request =
  iid :: int
  title :: string
  description :: "string option"
  state :: string
  created_at :: string
  updated_at :: string
  author :: author
  source_branch :: string
  target_branch :: string
  web_url :: string
  changes :: "error + change list"

record project =
  project_name :: string
  mergerequests_list :: "string \<Rightarrow> error + merge_request list"
  mergerequests_get :: "int \<Rightarrow> error + merge_request"

record gitlab =
  auth :: "error option"
  projects_get :: "string \<Rightarrow> error + project"

section \<open>The wiki platform, as the client library shows it\<close>

record page_links =
  base :: string
  webui :: string

record confluence_client =
  get_page_id :: "string option \<Rightarrow> string \<Rightarrow> error + string option"
  create_page :: "string option \<Rightarrow> string \<Rightarrow> string \<Rightarrow> string option \<Rightarrow> error + page_links"

record page =
  page_space :: "string option"
  page_title :: string
  page_body :: string
  page_parent_id :: "string option"

section \<open>The world: remote calls made, pages created\<close>

text \<open>
  Every remote call is appended to \<open>calls\<close>, in the order the code makes them; a
  \<open>create_page\<close> call that returns appends the page to \<open>pages\<close>. Logging is
  local and is left out.
\<close>

datatype call =
    Auth
  | ProjectsGet string
  | MergeRequestsList string
  | MergeRequestsGet int
  | MRChanges
  | GetPageId "string option" string
  | CreatePage "string option" string string "string option"

record world =
  calls :: "call list"
  pages :: "page list"

definition log_call :: "call \<Rightarrow> world \<Rightarrow> world" where
  "log_call c w = w\<lparr>calls := calls w @ [c]\<rparr>"

section \<open>gitlab\_pr.py: GitLabPRManager\<close>

text \<open>The dictionary \<open>get_merge_requests\<close> builds for one merge request.\<close>

record mr_info =
  d_id :: int
  d_title :: string
  d_description :: "string option"
  d_state :: string
  d_created_at :: string
  d_updated_at :: string
  d_author :: author
  d_source_branch :: string
  d_target_branch :: string
  d_web_url :: string

definition mr_info_of :: "merge_request \<Rightarrow> mr_info" where
  "mr_info_of mr =
     \<lparr>d_id = iid mr, d_title = title mr, d_description = description mr,
      d_state = state mr, d_created_at = created_at mr, d_updated_at = updated_at mr,
      d_author = \<lparr>name = name (author mr), username = username (author mr)\<rparr>,
      d_source_branch = source_branch mr, d_target_branch = target_branch mr,
      d_web_url = web_url mr\<rparr>"

text \<open>\<open>GitLabPRManager.__init__\<close>: authenticate at once; a failure is re-raised.\<close>

definition GitLabPRManager_init :: "gitlab \<Rightarrow> world \<Rightarrow> (error + gitlab) \<times> world" where
  "GitLabPRManager_init gl w =
     (case auth gl of
        Some e \<Rightarrow> (Inl e, log_call Auth w)
      | None \<Rightarrow> (Inr gl, log_call Auth w))"

text \<open>\<open>project_id.replace('/', '%2F')\<close>.\<close>

definition replace_slash :: "string \<Rightarrow> string" where
  "replace_slash s = concat (map (\<lambda>c. if c = CHR ''/'' then ''%2F'' else [c]) s)"

definition projects_get_call :: "gitlab \<Rightarrow> string \<Rightarrow> world \<Rightarrow> (error + project) \<times> world" where
  "projects_get_call gl i w = (projects_get gl i, log_call (ProjectsGet i) w)"

text \<open>
  Lines 49 to 54 of \<open>get_merge_requests\<close>: the direct lookup, and on
  \<open>GitlabGetError\<close> the lookup of the identifier with its separators encoded.
  Any other error of the first lookup, and any error of the second, leaves the block.
\<close>

definition resolve_project :: "gitlab \<Rightarrow> string \<Rightarrow> world \<Rightarrow> (error + project) \<times> world" where
  "resolve_project gl project_id w =
     (case projects_get_call gl project_id w of
        (Inr p, w1) \<Rightarrow> (Inr p, w1)
      | (Inl (GitlabGetError m), w1) \<Rightarrow> projects_get_call gl (replace_slash project_id) w1
      | (Inl e, w1) \<Rightarrow> (Inl e, w1))"

text \<open>The three \<open>except\<close> clauses that close \<open>get_merge_requests\<close>, in their order.\<close>

fun wrap_error :: "string \<Rightarrow> error \<Rightarrow> error" where
  "wrap_error project_id (GitlabAuthenticationError m) =
     PyException ''Authentication failed. Please check your GitLab token.''"
| "wrap_error project_id (GitlabGetError m) =
     PyException (''Failed to retrieve merge requests for project '' @ project_id @ ''. Error: '' @ m)"
| "wrap_error project_id e = PyException (''An unexpected error occurred: '' @ str_of e)"

definition get_merge_requests :: "gitlab \<Rightarrow> string \<Rightarrow> string \<Rightarrow> world \<Rightarrow> (error + mr_info list) \<times> world" where
  "get_merge_requests gl project_id st w =
     (case resolve_project gl project_id w of
        (Inl e, w1) \<Rightarrow> (Inl (wrap_error project_id e), w1)
      | (Inr p, w1) \<Rightarrow>
          (case mergerequests_list p st of
             Inl e \<Rightarrow> (Inl (wrap_error project_id e), log_call (MergeRequestsList st) w1)
           | Inr mrs \<Rightarrow> (Inr (map mr_info_of mrs), log_call (MergeRequestsList st) w1)))"

section \<open>pr\_analyzer.py: PRAnalyzer\<close>

text \<open>
  The object \<open>self\<close>: the hosting client, the wiki client (\<open>None\<close> when the
  credentials are not all given) and the configured wiki space.
\<close>

record analyzer =
  gitlab_manager :: gitlab
  confluence :: "confluence_client option"
  confluence_space :: "string option"

text \<open>The dictionary \<open>fetch_mr_details\<close> returns for one merge request.\<close>

record mr_details = mr_info +
  d_changes :: "change list"

definition mr_details_of :: "merge_request \<Rightarrow> change list \<Rightarrow> mr_details" where
  "mr_details_of mr cs = mr_info.extend (mr_info_of mr) \<lparr>d_changes = cs\<rparr>"

datatype fetched = Details mr_details | Listing "mr_info list"

text \<open>Python's truth value of an \<open>Optional[int]\<close>: \<open>None\<close> and \<open>0\<close> are false.\<close>

fun truthy :: "int option \<Rightarrow> bool" where
  "truthy None = False"
| "truthy (Some n) = (n \<noteq> 0)"

text \<open>The branch of \<open>fetch_mr_details\<close> for one merge request (lines 82 to 101).\<close>

definition fetch_specific :: "analyzer \<Rightarrow> string \<Rightarrow> int \<Rightarrow> world \<Rightarrow> (error + fetched) \<times> world" where
  "fetch_specific a project_id n w =
     (case projects_get_call (gitlab_manager a) project_id w of
        (Inl e, w1) \<Rightarrow> (Inl e, w1)
      | (Inr p, w1) \<Rightarrow>
          (case mergerequests_get p n of
             Inl e \<Rightarrow> (Inl e, log_call (MergeRequestsGet n) w1)
           | Inr mr \<Rightarrow>
               (if state mr = ''opened'' then
                  (case changes mr of
                     Inl e \<Rightarrow> (Inl e, log_call MRChanges (log_call (MergeRequestsGet n) w1))
                   | Inr cs \<Rightarrow> (Inr (Details (mr_details_of mr cs)),
                                 log_call MRChanges (log_call (MergeRequestsGet n) w1)))
                else (Inr (Details (mr_details_of mr [])), log_call (MergeRequestsGet n) w1))))"

text \<open>The branch for all merge requests (lines 103 to 105).\<close>

definition fetch_all :: "analyzer \<Rightarrow> string \<Rightarrow> world \<Rightarrow> (error + fetched) \<times> world" where
  "fetch_all a project_id w =
     (case get_merge_requests (gitlab_manager a) project_id ''opened'' w of
        (Inl e, w1) \<Rightarrow> (Inl e, w1)
      | (Inr l, w1) \<Rightarrow> (Inr (Listing l), w1))"

text \<open>The \<open>except Exception\<close> clause logs and re-raises: every error passes through.\<close>

definition fetch_mr_details :: "analyzer \<Rightarrow> string \<Rightarrow> int option \<Rightarrow> world \<Rightarrow> (error + fetched) \<times> world" where
  "fetch_mr_details a project_id mr_id w =
     (if truthy mr_id then
        (case mr_id of Some n \<Rightarrow> fetch_specific a project_id n w
                     | None \<Rightarrow> fetch_all a project_id w)
      else fetch_all a project_id w)"

subsection \<open>analyze\_code\_changes\<close>

record file_entry =
  f_path :: string
  f_type :: string
  additions :: nat
  deletions :: nat

record analysis =
  total_files_changed :: nat
  file_types :: "(string \<times> nat) list"
  total_additions :: nat
  total_deletions :: nat
  files :: "file_entry list"

text \<open>
  \<open>s.split(c)\<close> for a separator of one character: the pieces between the
  separators, never an empty list.
\<close>

fun split_char :: "char \<Rightarrow> string \<Rightarrow> string list" where
  "split_char c [] = [[]]"
| "split_char c (x # xs) =
     (if x = c then [] # split_char c xs
      else (x # hd (split_char c xs)) # tl (split_char c xs))"

text \<open>\<open>file_path.split('.')[-1] if '.' in file_path else 'unknown'\<close>.\<close>

definition file_type_of :: "string \<Rightarrow> string" where
  "file_type_of file_path =
     (if CHR ''.'' \<in> set file_path then last (split_char CHR ''.'' file_path) else ''unknown'')"

text \<open>
  The dictionary \<open>file_types\<close> keeps its keys in insertion order; the association
  list does the same. \<open>d[k] = d.get(k, 0) + 1\<close>:
\<close>

definition bump :: "string \<Rightarrow> (string \<times> nat) list \<Rightarrow> (string \<times> nat) list" where
  "bump k d = AList.update k ((case map_of d k of None \<Rightarrow> 0 | Some n \<Rightarrow> n) + 1) d"

text \<open>One turn of the loop over \<open>changes\<close> (lines 128 to 140).\<close>

definition analyze_step :: "change \<Rightarrow> analysis \<Rightarrow> analysis" where
  "analyze_step c an =
     an\<lparr>file_types := bump (file_type_of (new_path c)) (file_types an),
        total_additions := total_additions an + count_list (diff c) CHR ''+'',
        total_deletions := total_deletions an + count_list (diff c) CHR ''-'',
        files := files an @
          [\<lparr>f_path = new_path c, f_type = file_type_of (new_path c),
            additions = count_list (diff c) CHR ''+'',
            deletions = count_list (diff c) CHR ''-''\<rparr>]\<rparr>"

fun analyze_loop :: "change list \<Rightarrow> analysis \<Rightarrow> analysis" where
  "analyze_loop [] an = an"
| "analyze_loop (c # cs) an = analyze_loop cs (analyze_step c an)"

definition initial_analysis :: "change list \<Rightarrow> analysis" where
  "initial_analysis cs =
     \<lparr>total_files_changed = length cs, file_types = [], total_additions = 0,
      total_deletions = 0, files = []\<rparr>"

definition quoted :: "string \<Rightarrow> string" where
  "quoted s = CHR 0x27 # s @ [CHR 0x27]"

text \<open>
  \<open>fetch_mr_details\<close> returns a list when \<open>mr_id\<close> is false; a list has no
  \<open>get\<close>, and the attribute error is re-raised.
\<close>

definition analyze_code_changes :: "analyzer \<Rightarrow> string \<Rightarrow> int \<Rightarrow> world \<Rightarrow> (error + analysis) \<times> world" where
  "analyze_code_changes a project_id mr_id w =
     (case fetch_mr_details a project_id (Some mr_id) w of
        (Inl e, w1) \<Rightarrow> (Inl e, w1)
      | (Inr (Listing l), w1) \<Rightarrow> (Inl (AttributeError (quoted ''list'' @ '' object has no attribute '' @ quoted ''get'')), w1)
      | (Inr (Details d), w1) \<Rightarrow> (Inr (analyze_loop (d_changes d) (initial_analysis (d_changes d))), w1))"

subsection \<open>store\_in\_confluence\<close>

text \<open>
  The text Python puts into an f-string for an integer, and \<open>sep.join(xs)\<close>.
\<close>

fun str_nat :: "nat \<Rightarrow> string" where
  "str_nat n =
     (if n < 10 then [''0123456789'' ! n]
      else str_nat (n div 10) @ [''0123456789'' ! (n mod 10)])"

definition str_int :: "int \<Rightarrow> string" where
  "str_int i = (if i < 0 then CHR ''-'' # str_nat (nat (- i)) else str_nat (nat i))"

fun join :: "string \<Rightarrow> string list \<Rightarrow> string" where
  "join sep [] = []"
| "join sep [x] = x"
| "join sep (x # y # ys) = x @ sep @ join sep (y # ys)"

text \<open>
  Python's \<open>repr\<close> of the changes payload and of the \<open>file_types\<close>
  dictionary is the interpreter's, not the repository's: both are parameters.
\<close>

record python =
  repr_changes :: "change list \<Rightarrow> string"
  repr_file_types :: "(string \<times> nat) list \<Rightarrow> string"

definition nl :: string where
  "nl = [CHR 0x0A]"

text \<open>A line of a triple-quoted template: the line break, the indentation, the text.\<close>

definition line :: "nat \<Rightarrow> string \<Rightarrow> string" where
  "line k s = nl @ replicate k CHR '' '' @ s"

text \<open>The block added to the summary for one merge request (lines 164 to 173).\<close>

definition summary_block :: "mr_info \<Rightarrow> string" where
  "summary_block mr =
     line 28 (''h3. '' @ d_title mr) @
     line 28 (''* ID: '' @ str_int (d_id mr)) @
     line 28 (''* State: '' @ d_state mr) @
     line 28 (''* Author: '' @ name (d_author mr)) @
     line 28 (''* Source Branch: '' @ d_source_branch mr) @
     line 28 (''* Target Branch: '' @ d_target_branch mr) @
     line 28 (''* [View in GitLab]('' @ d_web_url mr @ '')'') @
     line 28 [] @
     line 28 []"

definition summary_content :: "mr_info list \<Rightarrow> string" where
  "summary_content l = ''h2. Merge Requests Summary'' @ nl @ nl @ concat (map summary_block l)"

text \<open>The fields both single-request templates start with.\<close>

definition basic_information :: "mr_details \<Rightarrow> string" where
  "basic_information d =
     line 20 ''h3. Basic Information'' @
     line 20 (''* Title: '' @ d_title d) @
     line 20 (''* ID: '' @ str_int (d_id d)) @
     line 20 (''* State: '' @ d_state d) @
     line 20 (''* Author: '' @ name (d_author d)) @
     line 20 (''* Source Branch: '' @ d_source_branch d) @
     line 20 (''* Target Branch: '' @ d_target_branch d) @
     line 20 (''* [View in GitLab]('' @ d_web_url d @ '')'') @
     line 20 []"

text \<open>Lines 193 to 209: the page without an analysis.\<close>

definition details_content :: "python \<Rightarrow> mr_details \<Rightarrow> string" where
  "details_content py d =
     line 20 ''h2. Merge Request Details'' @
     line 20 [] @
     basic_information d @
     line 20 ''h3. Changes'' @
     line 20 ''{{code}}'' @
     line 20 (repr_changes py (d_changes d)) @
     line 20 ''{{code}}'' @
     line 20 []"

definition file_row :: "file_entry \<Rightarrow> string" where
  "file_row f =
     ''|'' @ f_path f @ ''|'' @ f_type f @ ''|'' @ str_nat (additions f) @ ''|'' @
     str_nat (deletions f) @ ''|''"

text \<open>Lines 213 to 238: the page with an analysis.\<close>

definition report_content :: "python \<Rightarrow> mr_details \<Rightarrow> analysis \<Rightarrow> string" where
  "report_content py d an =
     line 20 ''h2. Merge Request Analysis Report'' @
     line 20 [] @
     basic_information d @
     line 20 ''h3. Code Analysis'' @
     line 20 (''* Total Files Changed: '' @ str_nat (total_files_changed an)) @
     line 20 (''* Total Additions: '' @ str_nat (total_additions an)) @
     line 20 (''* Total Deletions: '' @ str_nat (total_deletions an)) @
     line 20 [] @
     line 20 ''h3. File Types Changed'' @
     line 20 ''{{code}}'' @
     line 20 (repr_file_types py (file_types an)) @
     line 20 ''{{code}}'' @
     line 20 [] @
     line 20 ''h3. Detailed File Changes'' @
     line 20 ''||File Path||Type||Additions||Deletions||'' @
     line 20 (join nl (map file_row (files an))) @
     line 20 []"

text \<open>
  The end of both paths (lines 176 to 186 and 242 to 252): the parent's identifier is
  looked up by name, the page is created under it, and the two links of the answer
  are joined. The page is in the wiki when \<open>create_page\<close> returns.
\<close>

definition publish_page :: "confluence_client \<Rightarrow> string option \<Rightarrow> string \<Rightarrow> string \<Rightarrow> world \<Rightarrow> (error + string) \<times> world" where
  "publish_page cf space ttl content w =
     (case get_page_id cf space ''PR Analysis Reports'' of
        Inl e \<Rightarrow> (Inl e, log_call (GetPageId space ''PR Analysis Reports'') w)
      | Inr parent_id \<Rightarrow>
          (case create_page cf space ttl content parent_id of
             Inl e \<Rightarrow>
               (Inl e, log_call (CreatePage space ttl content parent_id)
                         (log_call (GetPageId space ''PR Analysis Reports'') w))
           | Inr links \<Rightarrow>
               (Inr (base links @ webui links),
                (log_call (CreatePage space ttl content parent_id)
                   (log_call (GetPageId space ''PR Analysis Reports'') w))
                \<lparr>pages := pages w @
                   [\<lparr>page_space = space, page_title = ttl, page_body = content,
                     page_parent_id = parent_id\<rparr>]\<rparr>)))"

text \<open>
  \<open>store_in_confluence\<close>. The argument \<open>analysis\<close> has the shape
  \<open>analyze_code_changes\<close> returns. With \<open>mr_id\<close> present and false,
  \<open>fetch_mr_details\<close> returns a list, and reading its \<open>title\<close> is a type
  error.
\<close>

definition store_in_confluence :: "python \<Rightarrow> analyzer \<Rightarrow> string \<Rightarrow> int option \<Rightarrow> analysis option \<Rightarrow> world \<Rightarrow> (error + string) \<times> world" where
  "store_in_confluence py a project_id mr_id an w =
     (case confluence a of
        None \<Rightarrow> (Inl (ValueError ''Confluence integration is not configured''), w)
      | Some cf \<Rightarrow>
          (case mr_id of
             None \<Rightarrow>
               (case fetch_mr_details a project_id None w of
                  (Inl e, w1) \<Rightarrow> (Inl e, w1)
                | (Inr (Listing l), w1) \<Rightarrow>
                    publish_page cf (confluence_space a) (''MR Summary - '' @ project_id)
                      (summary_content l) w1
                | (Inr (Details d), w1) \<Rightarrow>
                    (Inl (ValueError ''Unexpected response format from fetch_mr_details''), w1))
           | Some n \<Rightarrow>
               (case fetch_mr_details a project_id (Some n) w of
                  (Inl e, w1) \<Rightarrow> (Inl e, w1)
                | (Inr (Listing l), w1) \<Rightarrow>
                    (Inl (TypeError ''list indices must be integers or slices, not str''), w1)
                | (Inr (Details d), w1) \<Rightarrow>
                    publish_page cf (confluence_space a) (''MR Analysis - '' @ d_title d)
                      (case an of None \<Rightarrow> details_content py d
                                | Some r \<Rightarrow> report_content py d r) w1)))"

subsection \<open>PRAnalyzer.\_\_init\_\_\<close>

text \<open>
  The environment is a map from names to values; \<open>not os.getenv(v)\<close> holds when
  the variable is unset or empty. The constructors of the two client libraries are
  parameters. The tool runtime the constructor also starts is not modelled.
\<close>

record libraries =
  new_Gitlab :: "string \<Rightarrow> string \<Rightarrow> gitlab"
  new_Confluence :: "string \<Rightarrow> string \<Rightarrow> string \<Rightarrow> confluence_client"

definition env_set :: "(string \<rightharpoonup> string) \<Rightarrow> string \<Rightarrow> bool" where
  "env_set env v = (case env v of None \<Rightarrow> False | Some s \<Rightarrow> s \<noteq> [])"

definition getenv_default :: "(string \<rightharpoonup> string) \<Rightarrow> string \<Rightarrow> string \<Rightarrow> string" where
  "getenv_default env v dflt = (case env v of None \<Rightarrow> dflt | Some s \<Rightarrow> s)"

definition credentials_given :: "(string \<rightharpoonup> string) \<Rightarrow> bool" where
  "credentials_given env =
     (env_set env ''CONFLUENCE_URL'' \<and> env_set env ''CONFLUENCE_USERNAME'' \<and>
      env_set env ''CONFLUENCE_TOKEN'')"

definition PRAnalyzer_init :: "libraries \<Rightarrow> (string \<rightharpoonup> string) \<Rightarrow> world \<Rightarrow> (error + analyzer) \<times> world" where
  "PRAnalyzer_init lib env w =
     (if filter (\<lambda>v. \<not> env_set env v) [''GITLAB_TOKEN'', ''GITLAB_PROJECT_ID''] \<noteq> [] then
        (Inl (ValueError (''Missing required environment variables: '' @
                join '', '' (filter (\<lambda>v. \<not> env_set env v) [''GITLAB_TOKEN'', ''GITLAB_PROJECT_ID'']))), w)
      else
        (case GitLabPRManager_init
                (new_Gitlab lib (getenv_default env ''GITLAB_URL'' ''https://gitlab.com'')
                   (getenv_default env ''GITLAB_TOKEN'' [])) w of
           (Inl e, w1) \<Rightarrow> (Inl e, w1)
         | (Inr gl, w1) \<Rightarrow>
             (Inr \<lparr>gitlab_manager = gl,
                   confluence =
                     (if credentials_given env then
                        Some (new_Confluence lib (getenv_default env ''CONFLUENCE_URL'' [])
                                (getenv_default env ''CONFLUENCE_USERNAME'' [])
                                (getenv_default env ''CONFLUENCE_TOKEN'' []))
                      else None),
                   confluence_space = env ''CONFLUENCE_SPACE''\<rparr>, w1)))"

section \<open>A concrete remote state\<close>

text \<open>
  Merge request 42 of the project \<open>group/repo\<close>, with one changed file. The
  hosting platform is given twice: once it knows the project under the identifier as
  written, once only under the identifier with the separator encoded. The wiki has a
  page named \<open>PR Analysis Reports\<close>.
\<close>

definition example_changes :: "change list" where
  "example_changes =
     [\<lparr>new_path = ''src/app.py'', diff = ''+line1\<newline>+line2\<newline>-oldline\<newline>''\<rparr>]"

definition example_mr :: "string \<Rightarrow> merge_request" where
  "example_mr st =
     \<lparr>iid = 42, title = ''Add app'', description = None, state = st,
      created_at = ''2024-01-01T00:00:00Z'', updated_at = ''2024-01-02T00:00:00Z'',
      author = \<lparr>name = ''Ada'', username = ''ada''\<rparr>,
      source_branch = ''feature'', target_branch = ''main'',
      web_url = ''https://gitlab.com/group/repo/-/merge_requests/42'',
      changes = Inr example_changes\<rparr>"

definition example_project :: "string \<Rightarrow> project" where
  "example_project st =
     \<lparr>project_name = ''repo'',
      mergerequests_list = (\<lambda>s. Inr (filter (\<lambda>m. state m = s) [example_mr st])),
      mergerequests_get =
        (\<lambda>i. if i = 42 then Inr (example_mr st) else Inl (GitlabGetError ''404: 404 Not found''))\<rparr>"

definition example_gitlab :: "string \<Rightarrow> string \<Rightarrow> gitlab" where
  "example_gitlab known st =
     \<lparr>auth = None,
      projects_get =
        (\<lambda>i. if i = known then Inr (example_project st)
             else Inl (GitlabGetError ''404: 404 Project Not Found''))\<rparr>"

definition example_confluence :: confluence_client where
  "example_confluence =
     \<lparr>get_page_id = (\<lambda>space t. if t = ''PR Analysis Reports'' then Inr (Some ''1001'') else Inr None),
      create_page =
        (\<lambda>space t body parent. Inr \<lparr>base = ''https://wiki.example.com'', webui = ''/spaces/DOC/pages/2002''\<rparr>)\<rparr>"

definition example_analyzer :: "string \<Rightarrow> string \<Rightarrow> confluence_client option \<Rightarrow> analyzer" where
  "example_analyzer known st cf =
     \<lparr>gitlab_manager = example_gitlab known st, confluence = cf, confluence_space = Some ''DOC''\<rparr>"

definition example_python :: python where
  "example_python = \<lparr>repr_changes = (\<lambda>cs. ''[]''), repr_file_types = (\<lambda>d. ''{}'')\<rparr>"

definition empty_world :: world where
  "empty_world = \<lparr>calls = [], pages = []\<rparr>"

definition example_report :: analysis where
  "example_report =
     \<lparr>total_files_changed = 1, file_types = [(''py'', 1)], total_additions = 2,
      total_deletions = 1,
      files = [\<lparr>f_path = ''src/app.py'', f_type = ''py'', additions = 2, deletions = 1\<rparr>]\<rparr>"

text \<open>
  An environment with the hosting platform's settings and no complete wiki
  credentials, and client libraries that connect to the platforms above.
\<close>

definition example_libraries :: libraries where
  "example_libraries =
     \<lparr>new_Gitlab = (\<lambda>url token. example_gitlab ''group/repo'' ''opened''),
      new_Confluence = (\<lambda>url user token. example_confluence)\<rparr>"

definition example_env :: "string \<rightharpoonup> string" where
  "example_env =
     map_of [(''GITLAB_TOKEN'', ''glpat-token''), (''GITLAB_PROJECT_ID'', ''group/repo''),
             (''CONFLUENCE_URL'', ''https://wiki.example.com''),
             (''CONFLUENCE_SPACE'', ''DOC'')]"

text \<open>
  A second hosting platform: other titles, authors, branches and timestamps, the same
  changes.
\<close>

definition other_gitlab :: gitlab where
  "other_gitlab =
     \<lparr>auth = None,
      projects_get =
        (\<lambda>i. Inr \<lparr>project_name = ''other'',
                   mergerequests_list = (\<lambda>s. Inr []),
                   mergerequests_get =
                     (\<lambda>n. Inr \<lparr>iid = n, title = ''Another title'', description = Some ''text'',
                                state = ''opened'',
                                created_at = ''2025-06-01T10:00:00Z'',
                                updated_at = ''2025-06-02T10:00:00Z'',
                                author = \<lparr>name = ''Bob'', username = ''bob''\<rparr>,
                                source_branch = ''fix'', target_branch = ''develop'',
                                web_url = ''https://gitlab.example.org/o/-/merge_requests/7'',
                                changes = Inr example_changes\<rparr>)\<rparr>)\<rparr>"

definition other_analyzer :: analyzer where
  "other_analyzer = \<lparr>gitlab_manager = other_gitlab, confluence = None, confluence_space = None\<rparr>"

text \<open>The world after the summary page of the example has been published.\<close>

definition summary_world :: world where
  "summary_world =
     \<lparr>calls = [ProjectsGet ''group/repo'', MergeRequestsList ''opened'',
               GetPageId (Some ''DOC'') ''PR Analysis Reports'',
               CreatePage (Some ''DOC'') ''MR Summary - group/repo''
                 (summary_content [mr_info_of (example_mr ''opened'')]) (Some ''1001'')],
      pages = [\<lparr>page_space = Some ''DOC'', page_title = ''MR Summary - group/repo'',
                page_body = summary_content [mr_info_of (example_mr ''opened'')],
                page_parent_id = Some ''1001''\<rparr>]\<rparr>"

text \<open>
  An opened merge request whose changed files have the paths \<open>file.\<close>,
  \<open>archive.tar.gz\<close>, \<open>Makefile\<close> and \<open>dist/app.gz\<close>.
\<close>

definition suffix_changes :: "change list" where
  "suffix_changes =
     [\<lparr>new_path = ''file.'', diff = ''+a''\<rparr>,
      \<lparr>new_path = ''archive.tar.gz'', diff = ''-b''\<rparr>,
      \<lparr>new_path = ''Makefile'', diff = ''''\<rparr>,
      \<lparr>new_path = ''dist/app.gz'', diff = ''+c''\<rparr>]"

definition suffix_analyzer :: analyzer where
  "suffix_analyzer =
     \<lparr>gitlab_manager =
        \<lparr>auth = None,
         projects_get =
           (\<lambda>i. Inr \<lparr>project_name = ''repo'',
                      mergerequests_list = (\<lambda>s. Inr []),
                      mergerequests_get =
                        (\<lambda>n. Inr ((example_mr ''opened'')\<lparr>changes := Inr suffix_changes\<rparr>))\<rparr>)\<rparr>,
      confluence = None, confluence_space = None\<rparr>"

text \<open>A wiki that has no page named \<open>PR Analysis Reports\<close>.\<close>

definition bare_confluence :: confluence_client where
  "bare_confluence =
     \<lparr>get_page_id = (\<lambda>space t. Inr None),
      create_page =
        (\<lambda>space t body parent. Inr \<lparr>base = ''https://wiki.example.com'', webui = ''/spaces/DOC/pages/3003''\<rparr>)\<rparr>"

text \<open>The per-file entry the loop appends for a change.\<close>

definition entry_of :: "change \<Rightarrow> file_entry" where
  "entry_of c =
     \<lparr>f_path = new_path c, f_type = file_type_of (new_path c),
      additions = count_list (diff c) CHR ''+'',
      deletions = count_list (diff c) CHR ''-''\<rparr>"

section \<open>The file-extension category\<close>

lemma split_char_length: "length (split_char c s) = Suc (count_list s c)"
  by (induction s) auto

lemma split_char_no_sep: "c \<notin> set t \<Longrightarrow> split_char c t = [t]"
  by (induction t) auto

lemma last_split_char: "c \<notin> set t \<Longrightarrow> last (split_char c (pre @ c # t)) = t"
proof (induction pre)
  case Nil
  then show ?case by (simp add: split_char_no_sep)
next
  case (Cons x pre)
  have "length (split_char c (pre @ c # t)) \<ge> 2"
    by (simp add: split_char_length)
  then obtain y z zs where "split_char c (pre @ c # t) = y # z # zs"
    by (cases "split_char c (pre @ c # t)"; cases "tl (split_char c (pre @ c # t))") auto
  with Cons show ?case by auto
qed

lemma after_last_sep:
  assumes "c \<in> set p"
  shows "\<exists>pre. p = pre @ c # rev (takeWhile (\<lambda>x. x \<noteq> c) (rev p))"
proof -
  obtain ys zs where p: "p = ys @ c # zs" and n: "c \<notin> set zs"
    using assms split_list_last by fastforce
  have "takeWhile (\<lambda>x. x \<noteq> c) (rev p) = rev zs"
    using n by (auto simp: p takeWhile_tail)
  then show ?thesis using p by auto
qed

lemma file_type_of_dot:
  assumes "CHR ''.'' \<in> set p"
  shows "file_type_of p = rev (takeWhile (\<lambda>x. x \<noteq> CHR ''.'') (rev p))"
proof -
  let ?t = "rev (takeWhile (\<lambda>x. x \<noteq> CHR ''.'') (rev p))"
  obtain pre where p: "p = pre @ CHR ''.'' # ?t"
    using after_last_sep[OF assms] by blast
  have "CHR ''.'' \<notin> set ?t"
    using set_takeWhileD by fastforce
  then have "last (split_char CHR ''.'' (pre @ CHR ''.'' # ?t)) = ?t"
    by (rule last_split_char)
  with p assms show ?thesis by (simp add: file_type_of_def)
qed

text \<open>
  What \<open>file_type_of\<close> gives for a path with a \<open>.\<close>: the path ends with a
  \<open>.\<close> followed by the result, and the result has no \<open>.\<close> in it.
\<close>

lemma file_type_of_last_suffix:
  "(CHR ''.'' \<in> set p \<longrightarrow>
      (\<exists>pre. p = pre @ CHR ''.'' # file_type_of p) \<and> CHR ''.'' \<notin> set (file_type_of p)) \<and>
   file_type_of ''file.'' = [] \<and>
   file_type_of ''archive.tar.gz'' = ''gz''"
proof -
  have "(\<exists>pre. p = pre @ CHR ''.'' # file_type_of p) \<and> CHR ''.'' \<notin> set (file_type_of p)"
    if d: "CHR ''.'' \<in> set p"
  proof -
    have "CHR ''.'' \<notin> set (rev (takeWhile (\<lambda>x. x \<noteq> CHR ''.'') (rev p)))"
      using set_takeWhileD by fastforce
    then show ?thesis
      using after_last_sep[OF d] by (simp add: file_type_of_dot[OF d])
  qed
  moreover have "file_type_of ''file.'' = []"
    by (simp add: file_type_of_def)
  moreover have "file_type_of ''archive.tar.gz'' = ''gz''"
    by (simp add: file_type_of_def)
  ultimately show ?thesis by blast
qed

section \<open>The aggregation\<close>

lemma bump_sum: "sum_list (map snd (bump k d)) = Suc (sum_list (map snd d))"
  unfolding bump_def by (induction d) auto

lemma bump_distinct: "distinct (map fst d) \<Longrightarrow> distinct (map fst (bump k d))"
  unfolding bump_def by (rule distinct_update)

lemma analyze_loop_files: "files (analyze_loop cs an) = files an @ map entry_of cs"
  by (induction cs arbitrary: an) (simp_all add: analyze_step_def entry_of_def)

lemma analyze_loop_additions:
  "total_additions (analyze_loop cs an) =
     total_additions an + sum_list (map (\<lambda>c. count_list (diff c) CHR ''+'') cs)"
  by (induction cs arbitrary: an) (simp_all add: analyze_step_def)

lemma analyze_loop_deletions:
  "total_deletions (analyze_loop cs an) =
     total_deletions an + sum_list (map (\<lambda>c. count_list (diff c) CHR ''-'') cs)"
  by (induction cs arbitrary: an) (simp_all add: analyze_step_def)

lemma analyze_loop_total: "total_files_changed (analyze_loop cs an) = total_files_changed an"
  by (induction cs arbitrary: an) (simp_all add: analyze_step_def)

lemma analyze_loop_types:
  "sum_list (map snd (file_types (analyze_loop cs an))) =
     sum_list (map snd (file_types an)) + length cs"
  by (induction cs arbitrary: an) (simp_all add: analyze_step_def bump_sum)

lemma analyze_loop_distinct:
  "distinct (map fst (file_types an)) \<Longrightarrow>
     distinct (map fst (file_types (analyze_loop cs an)))"
  by (induction cs arbitrary: an) (simp_all add: analyze_step_def bump_distinct)

lemma analyze_loop_initial:
  "analyze_loop cs (initial_analysis cs) = r \<Longrightarrow>
     files r = map entry_of cs \<and>
     total_additions r = sum_list (map (\<lambda>c. count_list (diff c) CHR ''+'') cs) \<and>
     total_deletions r = sum_list (map (\<lambda>c. count_list (diff c) CHR ''-'') cs) \<and>
     total_files_changed r = length cs \<and>
     sum_list (map snd (file_types r)) = length cs \<and>
     distinct (map fst (file_types r))"
  using analyze_loop_files[of cs "initial_analysis cs"]
    analyze_loop_additions[of cs "initial_analysis cs"]
    analyze_loop_deletions[of cs "initial_analysis cs"]
    analyze_loop_total[of cs "initial_analysis cs"]
    analyze_loop_types[of cs "initial_analysis cs"]
    analyze_loop_distinct[of "initial_analysis cs" cs]
  by (simp add: initial_analysis_def)

lemma analyze_code_changes_Inr:
  assumes "analyze_code_changes a project_id mr_id w = (Inr r, w')"
  shows "\<exists>d. fetch_mr_details a project_id (Some mr_id) w = (Inr (Details d), w') \<and>
             r = analyze_loop (d_changes d) (initial_analysis (d_changes d))"
  using assms unfolding analyze_code_changes_def
  by (auto split: prod.splits sum.splits fetched.splits)

lemma d_changes_of: "d_changes (mr_details_of mr cs) = cs"
  by (simp add: mr_details_of_def mr_info.extend_def mr_info_of_def)

lemma d_title_of: "d_title (mr_details_of mr cs) = title mr"
  by (simp add: mr_details_of_def mr_info.extend_def mr_info_of_def)

lemma fetch_specific_opened:
  assumes "projects_get (gitlab_manager a) project_id = Inr p"
    and "mergerequests_get p n = Inr mr" and "n \<noteq> 0"
    and "state mr = ''opened''" and "changes mr = Inr cs"
  shows "fetch_mr_details a project_id (Some n) w =
           (Inr (Details (mr_details_of mr cs)),
            log_call MRChanges (log_call (MergeRequestsGet n) (log_call (ProjectsGet project_id) w)))"
  using assms by (simp add: fetch_mr_details_def fetch_specific_def projects_get_call_def)

lemma fetch_specific_not_opened:
  assumes "projects_get (gitlab_manager a) project_id = Inr p"
    and "mergerequests_get p n = Inr mr" and "n \<noteq> 0"
    and "state mr \<noteq> ''opened''"
  shows "fetch_mr_details a project_id (Some n) w =
           (Inr (Details (mr_details_of mr [])),
            log_call (MergeRequestsGet n) (log_call (ProjectsGet project_id) w))"
  using assms by (simp add: fetch_mr_details_def fetch_specific_def projects_get_call_def)

lemmas example_defs =
  example_analyzer_def example_gitlab_def example_project_def example_mr_def
  example_changes_def empty_world_def

lemma example_run:
  "analyze_code_changes (example_analyzer ''group/repo'' ''opened'' None) ''group/repo'' 42 empty_world =
     (Inr example_report,
      \<lparr>calls = [ProjectsGet ''group/repo'', MergeRequestsGet 42, MRChanges], pages = []\<rparr>)"
  by (simp add: analyze_code_changes_def fetch_mr_details_def fetch_specific_def
      projects_get_call_def log_call_def example_defs d_changes_of example_report_def
      initial_analysis_def analyze_step_def bump_def file_type_of_def)

text \<open>
  C1. In every report \<open>analyze_code_changes\<close> returns, \<open>total_additions\<close> is
  the sum of the additions of the entries of \<open>files\<close>, \<open>total_deletions\<close> the
  sum of their deletions, and the values of \<open>file_types\<close> add up to
  \<open>total_files_changed\<close>, which is the length of \<open>files\<close>. The keys of
  \<open>file_types\<close> are distinct, as a dictionary's are.
\<close>

theorem report_totals:
  assumes "analyze_code_changes a project_id mr_id w = (Inr r, w')"
  shows "total_additions r = sum_list (map additions (files r)) \<and>
         total_deletions r = sum_list (map deletions (files r)) \<and>
         sum_list (map snd (file_types r)) = total_files_changed r \<and>
         total_files_changed r = length (files r) \<and>
         distinct (map fst (file_types r))"
proof -
  obtain d :: mr_details where r: "analyze_loop (d_changes d) (initial_analysis (d_changes d)) = r"
    using analyze_code_changes_Inr[OF assms] by blast
  have add: "map additions (map entry_of cs) = map (\<lambda>c. count_list (diff c) CHR ''+'') cs" for cs
    by (simp add: entry_of_def)
  have del: "map deletions (map entry_of cs) = map (\<lambda>c. count_list (diff c) CHR ''-'') cs" for cs
    by (simp add: entry_of_def)
  from analyze_loop_initial[OF r] show ?thesis
    by (simp only: add del length_map)
qed

theorem report_totals_witness:
  "analyze_code_changes (example_analyzer ''group/repo'' ''opened'' None) ''group/repo'' 42 empty_world =
     (Inr example_report,
      \<lparr>calls = [ProjectsGet ''group/repo'', MergeRequestsGet 42, MRChanges], pages = []\<rparr>) \<and>
   total_additions example_report = sum_list (map additions (files example_report)) \<and>
   total_deletions example_report = sum_list (map deletions (files example_report)) \<and>
   sum_list (map snd (file_types example_report)) = total_files_changed example_report \<and>
   total_files_changed example_report = length (files example_report) \<and>
   distinct (map fst (file_types example_report))"
  using report_totals[OF example_run] example_run by simp

text \<open>
  C2. For an opened merge request, \<open>analyze_code_changes\<close> returns a report whose
  entry for each change counts as additions the \<open>+\<close> characters anywhere in the
  diff text, and as deletions the \<open>-\<close> characters anywhere in it. When the only
  change is \<open>src/app.py\<close> with the diff text of the scenario, the report is the
  one the scenario gives.
\<close>

theorem analyze_counts_characters:
  assumes "projects_get (gitlab_manager a) project_id = Inr p"
    and "mergerequests_get p mr_id = Inr mr" and "mr_id \<noteq> 0"
    and "state mr = ''opened''" and "changes mr = Inr cs"
  shows "\<exists>r. fst (analyze_code_changes a project_id mr_id w) = Inr r \<and>
           map f_path (files r) = map new_path cs \<and>
           map additions (files r) = map (\<lambda>c. count_list (diff c) CHR ''+'') cs \<and>
           map deletions (files r) = map (\<lambda>c. count_list (diff c) CHR ''-'') cs \<and>
           (cs = [\<lparr>new_path = ''src/app.py'', diff = ''+line1\<newline>+line2\<newline>-oldline\<newline>''\<rparr>] \<longrightarrow>
              r = \<lparr>total_files_changed = 1, file_types = [(''py'', 1)], total_additions = 2,
                   total_deletions = 1,
                   files = [\<lparr>f_path = ''src/app.py'', f_type = ''py'', additions = 2, deletions = 1\<rparr>]\<rparr>)"
proof -
  let ?r = "analyze_loop cs (initial_analysis cs)"
  have run: "fst (analyze_code_changes a project_id mr_id w) = Inr ?r"
    by (simp add: analyze_code_changes_def fetch_specific_opened[OF assms] d_changes_of)
  have fs: "files ?r = map entry_of cs"
    using analyze_loop_initial[of cs ?r] by simp
  have scenario: "?r = \<lparr>total_files_changed = 1, file_types = [(''py'', 1)], total_additions = 2,
                   total_deletions = 1,
                   files = [\<lparr>f_path = ''src/app.py'', f_type = ''py'', additions = 2, deletions = 1\<rparr>]\<rparr>"
    if "cs = [\<lparr>new_path = ''src/app.py'', diff = ''+line1\<newline>+line2\<newline>-oldline\<newline>''\<rparr>]"
    using that by (simp add: initial_analysis_def analyze_step_def bump_def file_type_of_def)
  show ?thesis
    using run fs scenario by (auto simp: entry_of_def)
qed

theorem analyze_counts_characters_witness:
  "fst (analyze_code_changes (example_analyzer ''group/repo'' ''opened'' None) ''group/repo'' 42 empty_world) =
     Inr \<lparr>total_files_changed = 1, file_types = [(''py'', 1)], total_additions = 2,
          total_deletions = 1,
          files = [\<lparr>f_path = ''src/app.py'', f_type = ''py'', additions = 2, deletions = 1\<rparr>]\<rparr>"
proof -
  have p: "projects_get (gitlab_manager (example_analyzer ''group/repo'' ''opened'' None)) ''group/repo'' =
             Inr (example_project ''opened'')"
    by (simp add: example_analyzer_def example_gitlab_def)
  have m: "mergerequests_get (example_project ''opened'') 42 = Inr (example_mr ''opened'')"
    by (simp add: example_project_def)
  have n: "(42::int) \<noteq> 0" by simp
  have s: "state (example_mr ''opened'') = ''opened''" by (simp add: example_mr_def)
  have c: "changes (example_mr ''opened'') =
             Inr [\<lparr>new_path = ''src/app.py'', diff = ''+line1\<newline>+line2\<newline>-oldline\<newline>''\<rparr>]"
    by (simp add: example_mr_def example_changes_def)
  from analyze_counts_characters[OF p m n s c, of empty_world] show ?thesis by auto
qed

section \<open>The category of a change in the report\<close>

lemma bump_keys: "fst ` set (bump k d) = insert k (fst ` set d)"
  unfolding bump_def by (simp add: dom_update)

lemma analyze_loop_keys:
  "set (map fst (file_types (analyze_loop cs an))) =
     set (map fst (file_types an)) \<union> set (map (\<lambda>c. file_type_of (new_path c)) cs)"
proof (induction cs arbitrary: an)
  case Nil
  show ?case by simp
next
  case (Cons c cs)
  have "fst ` set (file_types (analyze_step c an)) =
          insert (file_type_of (new_path c)) (fst ` set (file_types an))"
    by (simp add: analyze_step_def bump_keys)
  with Cons[of "analyze_step c an"] show ?case by auto
qed

lemma file_type_of_suffix:
  assumes "CHR ''.'' \<in> set p"
  shows "(\<exists>pre. p = pre @ CHR ''.'' # file_type_of p) \<and> CHR ''.'' \<notin> set (file_type_of p)"
  using file_type_of_last_suffix[of p] assms by blast

text \<open>
  C10. In the report \<open>analyze_code_changes\<close> returns, the entries of \<open>files\<close>
  carry the new paths of the changes, in their order, and the keys of \<open>file_types\<close>
  are the types of these entries. The type of an entry whose path contains a \<open>.\<close>
  is the text after the last \<open>.\<close> of the path: the path ends with a \<open>.\<close>
  followed by the type, and the type has no \<open>.\<close> in it. So an entry for
  \<open>file.\<close> has the empty type, not \<open>unknown\<close>, and an entry for
  \<open>archive.tar.gz\<close> has the type \<open>gz\<close>; a path without a \<open>.\<close> has
  the type \<open>unknown\<close>.
\<close>

theorem change_category_is_last_suffix:
  assumes "fetch_mr_details a project_id (Some mr_id) w = (Inr (Details d), w')"
  shows "\<exists>r. analyze_code_changes a project_id mr_id w = (Inr r, w') \<and>
           map f_path (files r) = map new_path (d_changes d) \<and>
           set (map fst (file_types r)) = set (map f_type (files r)) \<and>
           (\<forall>e \<in> set (files r).
              (CHR ''.'' \<in> set (f_path e) \<longrightarrow>
                 (\<exists>pre. f_path e = pre @ CHR ''.'' # f_type e) \<and> CHR ''.'' \<notin> set (f_type e)) \<and>
              (CHR ''.'' \<notin> set (f_path e) \<longrightarrow> f_type e = ''unknown'') \<and>
              (f_path e = ''file.'' \<longrightarrow> f_type e = []) \<and>
              (f_path e = ''archive.tar.gz'' \<longrightarrow> f_type e = ''gz''))"
proof -
  let ?cs = "d_changes d"
  let ?r = "analyze_loop ?cs (initial_analysis ?cs)"
  have run: "analyze_code_changes a project_id mr_id w = (Inr ?r, w')"
    by (simp add: analyze_code_changes_def assms)
  have fs: "files ?r = map entry_of ?cs"
    using analyze_loop_initial[of ?cs ?r] by simp
  have paths: "map f_path (files ?r) = map new_path ?cs"
    by (simp add: fs entry_of_def)
  have types: "map f_type (files ?r) = map (\<lambda>c. file_type_of (new_path c)) ?cs"
    by (simp add: fs entry_of_def)
  have keys: "set (map fst (file_types ?r)) = set (map f_type (files ?r))"
    using analyze_loop_keys[of ?cs "initial_analysis ?cs"]
    by (simp only: types) (simp add: initial_analysis_def)
  have each: "(CHR ''.'' \<in> set (f_path e) \<longrightarrow>
                 (\<exists>pre. f_path e = pre @ CHR ''.'' # f_type e) \<and> CHR ''.'' \<notin> set (f_type e)) \<and>
              (CHR ''.'' \<notin> set (f_path e) \<longrightarrow> f_type e = ''unknown'') \<and>
              (f_path e = ''file.'' \<longrightarrow> f_type e = []) \<and>
              (f_path e = ''archive.tar.gz'' \<longrightarrow> f_type e = ''gz'')"
    if "e \<in> set (files ?r)" for e
  proof -
    from that fs obtain c where e: "e = entry_of c" by auto
    have t: "f_type e = file_type_of (f_path e)" by (simp add: e entry_of_def)
    have "CHR ''.'' \<notin> set (f_path e) \<longrightarrow> f_type e = ''unknown''"
      by (simp add: t file_type_of_def)
    moreover have "f_path e = ''file.'' \<longrightarrow> f_type e = []"
      by (simp add: t file_type_of_def)
    moreover have "f_path e = ''archive.tar.gz'' \<longrightarrow> f_type e = ''gz''"
      by (simp add: t file_type_of_def)
    moreover have "CHR ''.'' \<in> set (f_path e) \<longrightarrow>
                 (\<exists>pre. f_path e = pre @ CHR ''.'' # f_type e) \<and> CHR ''.'' \<notin> set (f_type e)"
      using file_type_of_suffix[of "f_path e"] by (simp add: t)
    ultimately show ?thesis by blast
  qed
  show ?thesis
    using run paths keys each by blast
qed

lemma suffix_fetch:
  "fetch_mr_details suffix_analyzer ''group/repo'' (Some 42) empty_world =
     (Inr (Details (mr_details_of ((example_mr ''opened'')\<lparr>changes := Inr suffix_changes\<rparr>) suffix_changes)),
      \<lparr>calls = [ProjectsGet ''group/repo'', MergeRequestsGet 42, MRChanges], pages = []\<rparr>)"
  by (simp add: fetch_mr_details_def fetch_specific_def projects_get_call_def log_call_def
      suffix_analyzer_def example_mr_def empty_world_def)

theorem change_category_is_last_suffix_witness:
  "(\<exists>d w'. fetch_mr_details suffix_analyzer ''group/repo'' (Some 42) empty_world = (Inr (Details d), w') \<and>
      d_changes d = suffix_changes) \<and>
   (\<exists>r w'. analyze_code_changes suffix_analyzer ''group/repo'' 42 empty_world = (Inr r, w') \<and>
      map f_path (files r) = [''file.'', ''archive.tar.gz'', ''Makefile'', ''dist/app.gz''] \<and>
      map f_type (files r) = [[], ''gz'', ''unknown'', ''gz''] \<and>
      set (map fst (file_types r)) = {[], ''gz'', ''unknown''})"
proof -
  let ?d = "mr_details_of ((example_mr ''opened'')\<lparr>changes := Inr suffix_changes\<rparr>) suffix_changes"
  from change_category_is_last_suffix[OF suffix_fetch]
  obtain r where run: "analyze_code_changes suffix_analyzer ''group/repo'' 42 empty_world =
        (Inr r, \<lparr>calls = [ProjectsGet ''group/repo'', MergeRequestsGet 42, MRChanges], pages = []\<rparr>)"
    and paths: "map f_path (files r) = map new_path (d_changes ?d)"
    and keys: "set (map fst (file_types r)) = set (map f_type (files r))"
    and each: "\<forall>e \<in> set (files r).
              (CHR ''.'' \<in> set (f_path e) \<longrightarrow>
                 (\<exists>pre. f_path e = pre @ CHR ''.'' # f_type e) \<and> CHR ''.'' \<notin> set (f_type e)) \<and>
              (CHR ''.'' \<notin> set (f_path e) \<longrightarrow> f_type e = ''unknown'') \<and>
              (f_path e = ''file.'' \<longrightarrow> f_type e = []) \<and>
              (f_path e = ''archive.tar.gz'' \<longrightarrow> f_type e = ''gz'')"
    by blast
  have r: "r = analyze_loop suffix_changes (initial_analysis suffix_changes)"
    using run by (simp add: analyze_code_changes_def suffix_fetch d_changes_of)
  have p: "map f_path (files r) = [''file.'', ''archive.tar.gz'', ''Makefile'', ''dist/app.gz'']"
    using paths by (simp add: d_changes_of suffix_changes_def)
  have t: "map f_type (files r) = [[], ''gz'', ''unknown'', ''gz'']"
    by (simp add: r suffix_changes_def initial_analysis_def analyze_step_def file_type_of_def)
  have k: "set (map fst (file_types r)) = {[], ''gz'', ''unknown''}"
    using keys by (simp only: t) auto
  have dc: "d_changes ?d = suffix_changes" by (simp add: d_changes_of)
  have A: "\<exists>d w'. fetch_mr_details suffix_analyzer ''group/repo'' (Some 42) empty_world = (Inr (Details d), w') \<and>
      d_changes d = suffix_changes"
    by (rule exI[of _ ?d], rule exI, rule conjI[OF suffix_fetch dc])
  have B: "\<exists>r w'. analyze_code_changes suffix_analyzer ''group/repo'' 42 empty_world = (Inr r, w') \<and>
      map f_path (files r) = [''file.'', ''archive.tar.gz'', ''Makefile'', ''dist/app.gz''] \<and>
      map f_type (files r) = [[], ''gz'', ''unknown'', ''gz''] \<and>
      set (map fst (file_types r)) = {[], ''gz'', ''unknown''}"
    by (rule exI[of _ r], rule exI, intro conjI, rule run, rule p, rule t, rule k)
  show ?thesis by (rule conjI[OF A B])
qed

section \<open>Merge requests that are not open\<close>

text \<open>
  C4. For a merge request whose state is not \<open>opened\<close>, \<open>fetch_mr_details\<close>
  returns its record with an empty \<open>changes\<close>, whatever the remote call for the
  changes would return (it is not made), and \<open>analyze_code_changes\<close> returns the
  report with every count zero and no file, not an error.
\<close>

theorem not_opened_zero_report:
  assumes "projects_get (gitlab_manager a) project_id = Inr p"
    and "mergerequests_get p mr_id = Inr mr" and "mr_id \<noteq> 0"
    and "state mr \<noteq> ''opened''"
  shows "\<exists>d. fst (fetch_mr_details a project_id (Some mr_id) w) = Inr (Details d) \<and>
           d_changes d = [] \<and> d_id d = iid mr \<and> d_state d = state mr \<and>
           MRChanges \<notin> set (drop (length (calls w)) (calls (snd (fetch_mr_details a project_id (Some mr_id) w)))) \<and>
           fst (analyze_code_changes a project_id mr_id w) =
             Inr \<lparr>total_files_changed = 0, file_types = [], total_additions = 0,
                  total_deletions = 0, files = []\<rparr>"
proof -
  note f = fetch_specific_not_opened[OF assms, of w]
  have "d_id (mr_details_of mr []) = iid mr" "d_state (mr_details_of mr []) = state mr"
    by (simp_all add: mr_details_of_def mr_info.extend_def mr_info_of_def)
  moreover have "fst (analyze_code_changes a project_id mr_id w) =
             Inr \<lparr>total_files_changed = 0, file_types = [], total_additions = 0,
                  total_deletions = 0, files = []\<rparr>"
    by (simp add: analyze_code_changes_def f d_changes_of initial_analysis_def)
  ultimately show ?thesis
    by (simp add: f d_changes_of log_call_def)
qed

theorem not_opened_zero_report_witness:
  "state (example_mr ''merged'') \<noteq> ''opened'' \<and>
   changes (example_mr ''merged'') = Inr example_changes \<and>
   (\<exists>d. fst (fetch_mr_details (example_analyzer ''group/repo'' ''merged'' None) ''group/repo'' (Some 42) empty_world) = Inr (Details d) \<and> d_changes d = []) \<and>
   fst (analyze_code_changes (example_analyzer ''group/repo'' ''merged'' None) ''group/repo'' 42 empty_world) =
     Inr \<lparr>total_files_changed = 0, file_types = [], total_additions = 0,
          total_deletions = 0, files = []\<rparr>"
proof -
  have p: "projects_get (gitlab_manager (example_analyzer ''group/repo'' ''merged'' None)) ''group/repo'' =
             Inr (example_project ''merged'')"
    by (simp add: example_analyzer_def example_gitlab_def)
  have m: "mergerequests_get (example_project ''merged'') 42 = Inr (example_mr ''merged'')"
    by (simp add: example_project_def)
  have n: "(42::int) \<noteq> 0" by simp
  have s: "state (example_mr ''merged'') \<noteq> ''opened''" by (simp add: example_mr_def)
  have c: "changes (example_mr ''merged'') = Inr example_changes" by (simp add: example_mr_def)
  from not_opened_zero_report[OF p m n s, of empty_world] s c show ?thesis by blast
qed

section \<open>The aggregation reads the changes only\<close>

text \<open>
  C8. Two runs of \<open>analyze_code_changes\<close> whose fetches return the same list of
  changes return the same report, whatever else differs: the platform, the project,
  the merge request's identifier, title and timestamps, the calls made before.
\<close>

theorem analysis_depends_on_changes_only:
  assumes "fetch_mr_details a1 project1 (Some mr1) w1 = (Inr (Details d1), w1')"
    and "fetch_mr_details a2 project2 (Some mr2) w2 = (Inr (Details d2), w2')"
    and "d_changes d1 = d_changes d2"
  shows "\<exists>r. fst (analyze_code_changes a1 project1 mr1 w1) = Inr r \<and>
             fst (analyze_code_changes a2 project2 mr2 w2) = Inr r"
  using assms by (simp add: analyze_code_changes_def)

theorem analysis_depends_on_changes_only_witness:
  "fst (analyze_code_changes (example_analyzer ''group/repo'' ''opened'' None) ''group/repo'' 42 empty_world) =
     Inr example_report \<and>
   fst (analyze_code_changes other_analyzer ''77'' 7 \<lparr>calls = [Auth], pages = []\<rparr>) = Inr example_report"
proof -
  have p1: "projects_get (gitlab_manager (example_analyzer ''group/repo'' ''opened'' None)) ''group/repo'' =
             Inr (example_project ''opened'')"
    by (simp add: example_analyzer_def example_gitlab_def)
  have m1: "mergerequests_get (example_project ''opened'') 42 = Inr (example_mr ''opened'')"
    by (simp add: example_project_def)
  have f1: "fetch_mr_details (example_analyzer ''group/repo'' ''opened'' None) ''group/repo'' (Some 42) empty_world =
      (Inr (Details (mr_details_of (example_mr ''opened'') example_changes)),
       log_call MRChanges (log_call (MergeRequestsGet 42) (log_call (ProjectsGet ''group/repo'') empty_world)))"
    by (rule fetch_specific_opened[OF p1 m1]) (simp_all add: example_mr_def)
  obtain d2 w2 where f2: "fetch_mr_details other_analyzer ''77'' (Some 7) \<lparr>calls = [Auth], pages = []\<rparr> =
      (Inr (Details d2), w2)" and c2: "d_changes d2 = example_changes"
    by (simp add: fetch_mr_details_def fetch_specific_def projects_get_call_def other_analyzer_def
        other_gitlab_def d_changes_of)
  have eq: "d_changes (mr_details_of (example_mr ''opened'') example_changes) = d_changes d2"
    by (simp add: d_changes_of c2)
  from analysis_depends_on_changes_only[OF f1 f2 eq] example_run show ?thesis by auto
qed

section \<open>A merge-request identifier that is false\<close>




section \<open>Resolving the project\<close>





lemma resolve_project_not_found:
  assumes "projects_get gl project_id = Inl (GitlabGetError m)"
  shows "resolve_project gl project_id w =
           (projects_get gl (replace_slash project_id),
            log_call (ProjectsGet (replace_slash project_id)) (log_call (ProjectsGet project_id) w))"
  using assms by (simp add: resolve_project_def projects_get_call_def)

lemma wrap_error_PyException: "\<exists>msg. wrap_error project_id e = PyException msg"
  by (cases e) simp_all

lemma replace_slash_append: "replace_slash (a @ b) = replace_slash a @ replace_slash b"
  by (simp add: replace_slash_def)

lemma replace_slash_sep:
  "replace_slash (a @ CHR ''/'' # b) = replace_slash a @ ''%2F'' @ replace_slash b"
  by (simp add: replace_slash_def)

lemma replace_slash_id: "CHR ''/'' \<notin> set s \<Longrightarrow> replace_slash s = s"
  by (induction s) (auto simp: replace_slash_def)

lemma replace_slash_no_sep: "CHR ''/'' \<notin> set (replace_slash s)"
  by (induction s) (auto simp: replace_slash_def)

lemma replace_slash_length:
  "length (replace_slash s) = length s + 2 * count_list s CHR ''/''"
  by (induction s) (auto simp: replace_slash_def)

text \<open>
  C5. When the direct lookup of a project identifier fails with the not-found error,
  the project is looked up once more, under the identifier with every \<open>/\<close>
  replaced by \<open>%2F\<close>, and the resolution gives what this second lookup gives: the
  project if the encoded identifier names one. If the second lookup fails as well,
  \<open>get_merge_requests\<close> makes no further call and raises its own exception; for a
  not-found failure it carries the identifier as given and the failure's text. The
  encoded identifier is the given one with \<open>%2F\<close> in the place of each \<open>/\<close>:
  it turns a separator between two parts into \<open>%2F\<close> between the encoded parts,
  leaves a text without separator as it is, has no \<open>/\<close> left, and is two
  characters longer for every separator.
\<close>

theorem resolve_project_retries_once:
  assumes "projects_get gl project_id = Inl (GitlabGetError m)"
  shows "calls (snd (resolve_project gl project_id w)) =
           calls w @ [ProjectsGet project_id, ProjectsGet (replace_slash project_id)] \<and>
         fst (resolve_project gl project_id w) = projects_get gl (replace_slash project_id) \<and>
         ((\<exists>p. fst (resolve_project gl project_id w) = Inr p) =
            (\<exists>p. projects_get gl (replace_slash project_id) = Inr p)) \<and>
         (\<forall>e. projects_get gl (replace_slash project_id) = Inl e \<longrightarrow>
            (\<exists>msg. fst (get_merge_requests gl project_id st w) = Inl (PyException msg)) \<and>
            calls (snd (get_merge_requests gl project_id st w)) =
              calls w @ [ProjectsGet project_id, ProjectsGet (replace_slash project_id)]) \<and>
         (\<forall>m2. projects_get gl (replace_slash project_id) = Inl (GitlabGetError m2) \<longrightarrow>
            fst (get_merge_requests gl project_id st w) =
              Inl (PyException (''Failed to retrieve merge requests for project '' @ project_id @
                                ''. Error: '' @ m2))) \<and>
         (\<forall>a b. project_id = a @ CHR ''/'' # b \<longrightarrow>
            replace_slash project_id = replace_slash a @ ''%2F'' @ replace_slash b) \<and>
         (\<forall>s. CHR ''/'' \<notin> set s \<longrightarrow> replace_slash s = s) \<and>
         CHR ''/'' \<notin> set (replace_slash project_id) \<and>
         length (replace_slash project_id) = length project_id + 2 * count_list project_id CHR ''/''"
proof -
  note r = resolve_project_not_found[OF assms, of w]
  have "calls (snd (resolve_project gl project_id w)) =
           calls w @ [ProjectsGet project_id, ProjectsGet (replace_slash project_id)]"
    by (simp add: r log_call_def)
  moreover have "fst (resolve_project gl project_id w) = projects_get gl (replace_slash project_id)"
    by (simp add: r)
  moreover have "(\<exists>msg. fst (get_merge_requests gl project_id st w) = Inl (PyException msg)) \<and>
            calls (snd (get_merge_requests gl project_id st w)) =
              calls w @ [ProjectsGet project_id, ProjectsGet (replace_slash project_id)]"
    if "projects_get gl (replace_slash project_id) = Inl e" for e
    using that wrap_error_PyException[of project_id e]
    by (auto simp: get_merge_requests_def r log_call_def)
  moreover have "fst (get_merge_requests gl project_id st w) =
              Inl (PyException (''Failed to retrieve merge requests for project '' @ project_id @
                                ''. Error: '' @ m2))"
    if "projects_get gl (replace_slash project_id) = Inl (GitlabGetError m2)" for m2
    using that by (simp add: get_merge_requests_def r)
  moreover have "replace_slash project_id = replace_slash a @ ''%2F'' @ replace_slash b"
    if "project_id = a @ CHR ''/'' # b" for a b
    using that by (simp only: replace_slash_sep)
  moreover have "replace_slash s = s" if "CHR ''/'' \<notin> set s" for s
    using that by (rule replace_slash_id)
  moreover note replace_slash_no_sep[of project_id] replace_slash_length[of project_id]
  ultimately show ?thesis by simp
qed

theorem resolve_project_retries_once_witness:
  "CHR ''/'' \<in> set ''group/repo'' \<and> replace_slash ''group/repo'' = ''group%2Frepo'' \<and>
   projects_get (example_gitlab ''group%2Frepo'' ''opened'') ''group/repo'' =
     Inl (GitlabGetError ''404: 404 Project Not Found'') \<and>
   calls (snd (resolve_project (example_gitlab ''group%2Frepo'' ''opened'') ''group/repo'' empty_world)) =
     [ProjectsGet ''group/repo'', ProjectsGet ''group%2Frepo''] \<and>
   (\<exists>p. fst (resolve_project (example_gitlab ''group%2Frepo'' ''opened'') ''group/repo'' empty_world) = Inr p) \<and>
   projects_get (example_gitlab ''other'' ''opened'') ''group%2Frepo'' =
     Inl (GitlabGetError ''404: 404 Project Not Found'') \<and>
   fst (get_merge_requests (example_gitlab ''other'' ''opened'') ''group/repo'' ''opened'' empty_world) =
     Inl (PyException ''Failed to retrieve merge requests for project group/repo. Error: 404: 404 Project Not Found'') \<and>
   projects_get (example_gitlab ''other'' ''opened'') ''group/sub/repo'' =
     Inl (GitlabGetError ''404: 404 Project Not Found'') \<and>
   replace_slash ''group/sub/repo'' = ''group%2Fsub%2Frepo'' \<and>
   calls (snd (resolve_project (example_gitlab ''other'' ''opened'') ''group/sub/repo'' empty_world)) =
     [ProjectsGet ''group/sub/repo'', ProjectsGet ''group%2Fsub%2Frepo'']"
proof -
  have rs: "replace_slash ''group/repo'' = ''group%2Frepo''" by (simp add: replace_slash_def)
  have rs3: "replace_slash ''group/sub/repo'' = ''group%2Fsub%2Frepo''" by (simp add: replace_slash_def)
  have h1: "projects_get (example_gitlab ''group%2Frepo'' ''opened'') ''group/repo'' =
     Inl (GitlabGetError ''404: 404 Project Not Found'')" by (simp add: example_gitlab_def)
  have ok: "projects_get (example_gitlab ''group%2Frepo'' ''opened'') ''group%2Frepo'' =
     Inr (example_project ''opened'')" by (simp add: example_gitlab_def)
  have h2: "projects_get (example_gitlab ''other'' ''opened'') ''group/repo'' =
     Inl (GitlabGetError ''404: 404 Project Not Found'')" by (simp add: example_gitlab_def)
  have h3: "projects_get (example_gitlab ''other'' ''opened'') ''group%2Frepo'' =
     Inl (GitlabGetError ''404: 404 Project Not Found'')" by (simp add: example_gitlab_def)
  have h4: "projects_get (example_gitlab ''other'' ''opened'') ''group/sub/repo'' =
     Inl (GitlabGetError ''404: 404 Project Not Found'')" by (simp add: example_gitlab_def)
  from resolve_project_retries_once[OF h1, of empty_world "''opened''"]
    resolve_project_retries_once[OF h2, of empty_world "''opened''"]
    resolve_project_retries_once[OF h4, of empty_world "''opened''"]
    rs rs3 h1 ok h3 h4
  show ?thesis by (simp add: empty_world_def)
qed

section \<open>Publishing to the wiki\<close>

lemma init_confluence:
  assumes "PRAnalyzer_init lib env w = (Inr a, w')"
  shows "(confluence a = None) = (\<not> credentials_given env)"
  using assms unfolding PRAnalyzer_init_def
  by (auto split: if_splits prod.splits sum.splits)

lemma example_init:
  "PRAnalyzer_init example_libraries example_env empty_world =
     (Inr (example_analyzer ''group/repo'' ''opened'' None),
      \<lparr>calls = [Auth], pages = []\<rparr>)"
  by (simp add: PRAnalyzer_init_def GitLabPRManager_init_def env_set_def example_env_def
      example_libraries_def credentials_given_def getenv_default_def log_call_def
      example_analyzer_def example_gitlab_def empty_world_def)

text \<open>
  C6. When the wiki client is not configured, \<open>store_in_confluence\<close> raises its
  configuration error (a \<open>ValueError\<close>) for every input, and the world is the one
  it started in: no remote call has been made and no page created.
\<close>

theorem store_requires_configuration:
  assumes "confluence a = None"
  shows "store_in_confluence py a project_id mr_id an w =
           (Inl (ValueError ''Confluence integration is not configured''), w)"
  using assms by (simp add: store_in_confluence_def)

theorem store_requires_configuration_witness:
  "\<not> credentials_given example_env \<and>
   PRAnalyzer_init example_libraries example_env empty_world =
     (Inr (example_analyzer ''group/repo'' ''opened'' None),
      \<lparr>calls = [Auth], pages = []\<rparr>) \<and>
   confluence (example_analyzer ''group/repo'' ''opened'' None) = None \<and>
   store_in_confluence example_python
       (example_analyzer ''group/repo'' ''opened'' None)
       ''group/repo'' None None \<lparr>calls = [Auth], pages = []\<rparr> =
     (Inl (ValueError ''Confluence integration is not configured''), \<lparr>calls = [Auth], pages = []\<rparr>)"
proof -
  have c: "\<not> credentials_given example_env"
    by (simp add: credentials_given_def env_set_def example_env_def)
  have n: "confluence (example_analyzer ''group/repo'' ''opened'' None) = None"
    using init_confluence[OF example_init] c by simp
  from store_requires_configuration[OF n] c n example_init show ?thesis by simp
qed

lemma fetch_mr_details_world:
  "\<exists>cs. snd (fetch_mr_details a project_id mr_id w) = w\<lparr>calls := calls w @ cs\<rparr>"
  unfolding fetch_mr_details_def fetch_specific_def fetch_all_def get_merge_requests_def
    resolve_project_def projects_get_call_def log_call_def
  by (auto split: prod.splits sum.splits error.splits option.splits)

lemma publish_page_Inr:
  assumes "publish_page cf space ttl content w = (Inr url, w')"
  shows "\<exists>parent links.
           get_page_id cf space ''PR Analysis Reports'' = Inr parent \<and>
           create_page cf space ttl content parent = Inr links \<and>
           url = base links @ webui links \<and>
           calls w' = calls w @ [GetPageId space ''PR Analysis Reports'',
                                 CreatePage space ttl content parent] \<and>
           pages w' = pages w @ [\<lparr>page_space = space, page_title = ttl, page_body = content,
                                  page_parent_id = parent\<rparr>]"
  using assms unfolding publish_page_def log_call_def
  by (auto split: sum.splits)

lemma fetch_specific_Details:
  assumes "fetch_mr_details a project_id (Some n) w = (Inr (Details d), w1)"
  shows "\<exists>p mr. projects_get (gitlab_manager a) project_id = Inr p \<and>
                mergerequests_get p n = Inr mr \<and> d_title d = title mr"
  using assms unfolding fetch_mr_details_def fetch_specific_def fetch_all_def projects_get_call_def
  by (auto split: prod.splits sum.splits if_splits simp: d_title_of)

lemma store_in_confluence_Inr:
  assumes "store_in_confluence py a project_id mr_id an w = (Inr url, w')"
  shows "\<exists>cf f w1 ttl content.
           confluence a = Some cf \<and>
           fetch_mr_details a project_id mr_id w = (Inr f, w1) \<and>
           publish_page cf (confluence_space a) ttl content w1 = (Inr url, w') \<and>
           (case mr_id of
              None \<Rightarrow> ttl = ''MR Summary - '' @ project_id
            | Some n \<Rightarrow> \<exists>d. f = Details d \<and> ttl = ''MR Analysis - '' @ d_title d)"
  using assms unfolding store_in_confluence_def
  by (auto split: option.splits prod.splits sum.splits fetched.splits)

text \<open>
  C7, as amended. A call of \<open>store_in_confluence\<close> that returns has created one
  page, in the configured space, with the parent identifier that the lookup of the
  page named \<open>PR Analysis Reports\<close> in that space returned: the page is under that
  page when the lookup finds it, and has no parent when the lookup returns none. The
  lookup is among the calls of this very call, right before the creation. The title
  is \<open>MR Summary - \<close> and the project identifier when \<open>mr_id\<close> is absent,
  \<open>MR Analysis - \<close> and the title of the fetched merge request when it is present.
\<close>

theorem created_page_parent_and_title:
  assumes "store_in_confluence py a project_id mr_id an w = (Inr url, w')"
  shows "\<exists>cf pg before.
           confluence a = Some cf \<and>
           pages w' = pages w @ [pg] \<and>
           page_space pg = confluence_space a \<and>
           get_page_id cf (confluence_space a) ''PR Analysis Reports'' = Inr (page_parent_id pg) \<and>
           calls w' = calls w @ before @
             [GetPageId (confluence_space a) ''PR Analysis Reports'',
              CreatePage (confluence_space a) (page_title pg) (page_body pg) (page_parent_id pg)] \<and>
           (case mr_id of
              None \<Rightarrow> page_title pg = ''MR Summary - '' @ project_id
            | Some n \<Rightarrow>
                \<exists>p mr. projects_get (gitlab_manager a) project_id = Inr p \<and>
                       mergerequests_get p n = Inr mr \<and>
                       page_title pg = ''MR Analysis - '' @ title mr)"
proof -
  obtain cf f w1 ttl content where cf: "confluence a = Some cf"
    and f: "fetch_mr_details a project_id mr_id w = (Inr f, w1)"
    and pub: "publish_page cf (confluence_space a) ttl content w1 = (Inr url, w')"
    and ttl: "case mr_id of
              None \<Rightarrow> ttl = ''MR Summary - '' @ project_id
            | Some n \<Rightarrow> \<exists>d. f = Details d \<and> ttl = ''MR Analysis - '' @ d_title d"
    using store_in_confluence_Inr[OF assms] by blast
  obtain before where w1: "w1 = w\<lparr>calls := calls w @ before\<rparr>"
    using fetch_mr_details_world[of a project_id mr_id w] f by auto
  obtain parent where par: "get_page_id cf (confluence_space a) ''PR Analysis Reports'' = Inr parent"
    and cs: "calls w' = calls w1 @ [GetPageId (confluence_space a) ''PR Analysis Reports'',
                                 CreatePage (confluence_space a) ttl content parent]"
    and ps: "pages w' = pages w1 @ [\<lparr>page_space = confluence_space a, page_title = ttl,
                                  page_body = content, page_parent_id = parent\<rparr>]"
    using publish_page_Inr[OF pub] by blast
  let ?pg = "\<lparr>page_space = confluence_space a, page_title = ttl,
                                  page_body = content, page_parent_id = parent\<rparr>"
  have t: "case mr_id of
              None \<Rightarrow> page_title ?pg = ''MR Summary - '' @ project_id
            | Some n \<Rightarrow>
                \<exists>p mr. projects_get (gitlab_manager a) project_id = Inr p \<and>
                       mergerequests_get p n = Inr mr \<and>
                       page_title ?pg = ''MR Analysis - '' @ title mr"
  proof (cases mr_id)
    case None
    with ttl show ?thesis by simp
  next
    case (Some n)
    with ttl obtain d where d: "f = Details d" and tt: "ttl = ''MR Analysis - '' @ d_title d"
      by auto
    from fetch_specific_Details[OF f[unfolded Some d]] tt Some show ?thesis by auto
  qed
  have "pages w' = pages w @ [?pg]" using ps w1 by simp
  moreover have "calls w' = calls w @ before @
             [GetPageId (confluence_space a) ''PR Analysis Reports'',
              CreatePage (confluence_space a) (page_title ?pg) (page_body ?pg) (page_parent_id ?pg)]"
    using cs w1 by simp
  moreover have "page_space ?pg = confluence_space a" by simp
  moreover have "get_page_id cf (confluence_space a) ''PR Analysis Reports'' = Inr (page_parent_id ?pg)"
    using par by simp
  ultimately show ?thesis using cf t by blast
qed

lemma example_store_summary:
  "store_in_confluence example_python
     (example_analyzer ''group/repo'' ''opened'' (Some example_confluence)) ''group/repo'' None None
     empty_world =
   (Inr ''https://wiki.example.com/spaces/DOC/pages/2002'', summary_world)"
  by (simp add: store_in_confluence_def fetch_mr_details_def fetch_all_def get_merge_requests_def
      resolve_project_def projects_get_call_def publish_page_def log_call_def
      example_defs example_confluence_def summary_world_def)

lemma example_store_details:
  "store_in_confluence example_python
     (example_analyzer ''group/repo'' ''opened'' (Some example_confluence)) ''group/repo'' (Some 42) None
     summary_world =
   (Inr ''https://wiki.example.com/spaces/DOC/pages/2002'',
    \<lparr>calls = calls summary_world @
       [ProjectsGet ''group/repo'', MergeRequestsGet 42, MRChanges,
        GetPageId (Some ''DOC'') ''PR Analysis Reports'',
        CreatePage (Some ''DOC'') ''MR Analysis - Add app''
          (details_content example_python (mr_details_of (example_mr ''opened'') example_changes))
          (Some ''1001'')],
     pages = pages summary_world @
       [\<lparr>page_space = Some ''DOC'', page_title = ''MR Analysis - Add app'',
         page_body = details_content example_python
                       (mr_details_of (example_mr ''opened'') example_changes),
         page_parent_id = Some ''1001''\<rparr>]\<rparr>)"
proof -
  have p: "projects_get (gitlab_manager (example_analyzer ''group/repo'' ''opened'' (Some example_confluence))) ''group/repo'' =
             Inr (example_project ''opened'')"
    by (simp add: example_analyzer_def example_gitlab_def)
  have m: "mergerequests_get (example_project ''opened'') 42 = Inr (example_mr ''opened'')"
    by (simp add: example_project_def)
  have f: "fetch_mr_details (example_analyzer ''group/repo'' ''opened'' (Some example_confluence)) ''group/repo'' (Some 42) summary_world =
      (Inr (Details (mr_details_of (example_mr ''opened'') example_changes)),
       log_call MRChanges (log_call (MergeRequestsGet 42) (log_call (ProjectsGet ''group/repo'') summary_world)))"
    by (rule fetch_specific_opened[OF p m]) (simp_all add: example_mr_def)
  have t: "d_title (mr_details_of (example_mr ''opened'') example_changes) = ''Add app''"
    by (simp add: d_title_of example_mr_def)
  have c: "confluence (example_analyzer ''group/repo'' ''opened'' (Some example_confluence)) =
             Some example_confluence"
    and sp: "confluence_space (example_analyzer ''group/repo'' ''opened'' (Some example_confluence)) =
             Some ''DOC''"
    by (simp_all add: example_analyzer_def)
  have g: "get_page_id example_confluence (Some ''DOC'') ''PR Analysis Reports'' = Inr (Some ''1001'')"
    and cr: "create_page example_confluence sp' tt body par =
               Inr \<lparr>base = ''https://wiki.example.com'', webui = ''/spaces/DOC/pages/2002''\<rparr>"
    for sp' tt body par
    by (simp_all add: example_confluence_def)
  show ?thesis
    by (simp add: store_in_confluence_def f t c sp g cr publish_page_def log_call_def)
qed

theorem created_page_parent_and_title_witness:
  "store_in_confluence example_python
     (example_analyzer ''group/repo'' ''opened'' (Some example_confluence)) ''group/repo'' None None
     empty_world =
   (Inr ''https://wiki.example.com/spaces/DOC/pages/2002'', summary_world) \<and>
   (\<exists>pg. pages summary_world = pages empty_world @ [pg] \<and>
         page_space pg = Some ''DOC'' \<and>
         page_parent_id pg = Some ''1001'' \<and>
         page_title pg = ''MR Summary - group/repo'') \<and>
   (\<exists>w' pg. store_in_confluence example_python
              (example_analyzer ''group/repo'' ''opened'' (Some example_confluence)) ''group/repo''
              (Some 42) None summary_world =
            (Inr ''https://wiki.example.com/spaces/DOC/pages/2002'', w') \<and>
          pages w' = pages summary_world @ [pg] \<and>
          page_parent_id pg = Some ''1001'' \<and>
          page_title pg = ''MR Analysis - Add app'' \<and>
          count_list (calls w') (GetPageId (Some ''DOC'') ''PR Analysis Reports'') = 2)"
proof -
  from created_page_parent_and_title[OF example_store_summary]
  have "\<exists>pg. pages summary_world = pages empty_world @ [pg] \<and>
         page_space pg = Some ''DOC'' \<and>
         page_parent_id pg = Some ''1001'' \<and>
         page_title pg = ''MR Summary - group/repo''"
    by (auto simp: example_analyzer_def example_confluence_def)
  moreover have "\<exists>w' pg. store_in_confluence example_python
              (example_analyzer ''group/repo'' ''opened'' (Some example_confluence)) ''group/repo''
              (Some 42) None summary_world =
            (Inr ''https://wiki.example.com/spaces/DOC/pages/2002'', w') \<and>
          pages w' = pages summary_world @ [pg] \<and>
          page_parent_id pg = Some ''1001'' \<and>
          page_title pg = ''MR Analysis - Add app'' \<and>
          count_list (calls w') (GetPageId (Some ''DOC'') ''PR Analysis Reports'') = 2"
    by (simp add: example_store_details) (simp add: summary_world_def)
  ultimately show ?thesis using example_store_summary by blast
qed

text \<open>
  C7, at a concrete input. The wiki has no page named \<open>PR Analysis Reports\<close>:
  the lookup returns none, \<open>store_in_confluence\<close> returns all the same, and the
  page it has created has no parent.
\<close>

theorem page_without_parent:
  "store_in_confluence example_python
     \<lparr>gitlab_manager = example_gitlab ''group/repo'' ''opened'', confluence = Some bare_confluence,
      confluence_space = Some ''DOC''\<rparr> ''group/repo'' None None empty_world =
   (Inr ''https://wiki.example.com/spaces/DOC/pages/3003'',
    \<lparr>calls = [ProjectsGet ''group/repo'', MergeRequestsList ''opened'',
              GetPageId (Some ''DOC'') ''PR Analysis Reports'',
              CreatePage (Some ''DOC'') ''MR Summary - group/repo''
                (summary_content [mr_info_of (example_mr ''opened'')]) None],
     pages = [\<lparr>page_space = Some ''DOC'', page_title = ''MR Summary - group/repo'',
               page_body = summary_content [mr_info_of (example_mr ''opened'')],
               page_parent_id = None\<rparr>]\<rparr>) \<and>
   get_page_id bare_confluence (Some ''DOC'') ''PR Analysis Reports'' = Inr None"
  by (simp add: store_in_confluence_def fetch_mr_details_def fetch_all_def get_merge_requests_def
      resolve_project_def projects_get_call_def publish_page_def log_call_def
      example_gitlab_def example_project_def example_mr_def example_changes_def empty_world_def
      bare_confluence_def)

end
